theory Spec2Isabelle
  imports Complex_Main
begin

section \<open>Values of the program\<close>

text \<open>
  A Python \<open>float\<close> is modelled as a real number or one of the three IEEE special
  values.  Finite arithmetic is taken as exact (no rounding error, no overflow of a
  finite result), and negative zero is identified with zero.  The statements below
  about \<open>make_dict\<close> therefore either evaluate inputs whose quotients are exact in
  binary64, or concern outcomes that are the same for every rounding and for both
  signs of zero.
\<close>

datatype pyfloat = Fin real | PInf | NInf | NaN

text \<open>
  The exceptions that the code of \<open>main.py\<close> can raise, as values.  \<open>KeyError\<close>
  carries the missing key(s).  \<open>AppError\<close> stands for an exception class defined by
  the application itself, identified by its name; \<open>main.py\<close> defines none, so no
  function below produces it.
\<close>

datatype error =
    KeyError "string list"
  | IndexError
  | ValueError
  | OverflowError
  | ZeroDivisionError
  | AttributeError
  | JSONDecodeError
  | AppError string

text \<open>A JSON object: keys with their values, in document order.\<close>

type_synonym 'v dict = "(string \<times> 'v) list"

subsection \<open>The feed\<close>

text \<open>
  One element of \<open>close_approach_data\<close>.  The velocity and the miss distance are
  objects keyed by unit; the date may be absent.
\<close>

record close_approach =
  close_approach_date :: "string option"
  relative_velocity :: "pyfloat dict"
  miss_distance :: "pyfloat dict"

text \<open>
  One asteroid of the feed.  \<open>estimated_diameter\<close> is keyed by unit, each unit
  holding an object with \<open>estimated_diameter_min\<close> and \<open>estimated_diameter_max\<close>.
\<close>

record asteroid =
  neo_id :: string
  neo_name :: string
  neo_hazardous :: bool
  estimated_diameter :: "pyfloat dict dict"
  close_approach_data :: "close_approach list"

text \<open>
  \<open>near_earth_objects\<close>: the asteroids of each day.  A Python dict has distinct keys,
  so \<open>report[day]\<close> for \<open>day\<close> in \<open>report.keys()\<close> is the value paired with the key.
\<close>

type_synonym raw_feed = "asteroid list dict"

subsection \<open>Data frames\<close>

text \<open>
  A row of the per-day frame after the column selection of lines 51--61: the four
  meta columns and the three \<open>cpd.\<close> columns.  A missing value of a float column
  is \<open>NaN\<close>, a missing date is \<open>None\<close>.
\<close>

record frame_row =
  col_id :: string
  col_name :: string
  col_hazardous :: bool
  col_estimated_diameter :: "pyfloat dict dict"
  col_relative_velocity :: pyfloat
  col_miss_distance :: pyfloat
  col_close_approach_date :: "string option"

text \<open>A row of the frame that \<open>transform_data\<close> returns, with the renamed columns.\<close>

record row =
  row_id :: string
  name :: string
  is_potentially_hazardous_asteroid :: bool
  estimated_diameter_min_km :: pyfloat
  estimated_diameter_max_km :: pyfloat
  relative_velocity_km_sec :: pyfloat
  miss_distance_km :: pyfloat
  searching_date :: "string option"

text \<open>The dictionary that \<open>make_dict\<close> returns.\<close>

record summary =
  potentially_hazardous_count :: nat
  name_with_max_estimated_diam :: string
  min_collision_hours :: int

section \<open>The flattener: \<open>transform_data\<close>\<close>

subsection \<open>\<open>pd.json_normalize\<close> as it is called on line 45\<close>

text \<open>
  The keys of one event after \<open>nested_to_record\<close> has flattened it with the
  separator \<open>.\<close>.
\<close>

definition flat_keys :: "close_approach \<Rightarrow> string list" where
  "flat_keys e =
     (case close_approach_date e of None \<Rightarrow> [] | Some _ \<Rightarrow> [''close_approach_date''])
     @ map (\<lambda>(u, _). ''relative_velocity.'' @ u) (relative_velocity e)
     @ map (\<lambda>(u, _). ''miss_distance.'' @ u) (miss_distance e)"

text \<open>
  The columns of the normalised frame: the flattened keys of all events with the
  prefix \<open>cpd.\<close>, then the meta columns.
\<close>

definition meta_columns :: "string list" where
  "meta_columns = [''id'', ''name'', ''is_potentially_hazardous_asteroid'', ''estimated_diameter'']"

definition frame_columns :: "close_approach list \<Rightarrow> string list" where
  "frame_columns records =
     remdups (concat (map (\<lambda>e. map (\<lambda>k. ''cpd.'' @ k) (flat_keys e)) records)) @ meta_columns"

text \<open>\<open>numpy.repeat\<close>: the i-th value, as often as the i-th length says.\<close>

fun repeat_by :: "'a list \<Rightarrow> nat list \<Rightarrow> 'a list" where
  "repeat_by (x # xs) (n # ns) = replicate n x @ repeat_by xs ns"
| "repeat_by _ _ = []"

text \<open>A float cell of a flattened event: the value, or \<open>NaN\<close> where the key is absent.\<close>

definition cell :: "pyfloat dict \<Rightarrow> string \<Rightarrow> pyfloat" where
  "cell d u = (case map_of d u of None \<Rightarrow> NaN | Some v \<Rightarrow> v)"

definition mk_frame_row :: "close_approach \<Rightarrow> asteroid \<Rightarrow> frame_row" where
  "mk_frame_row e a =
     \<lparr>col_id = neo_id a, col_name = neo_name a, col_hazardous = neo_hazardous a,
      col_estimated_diameter = estimated_diameter a,
      col_relative_velocity = cell (relative_velocity e) ''kilometers_per_second'',
      col_miss_distance = cell (miss_distance e) ''kilometers'',
      col_close_approach_date = close_approach_date e\<rparr>"

text \<open>
  \<open>json_normalize\<close> returns the frame without any column for the empty list.
  Otherwise the records are the events of all asteroids, and each meta value is
  repeated once per event of its asteroid.  The result is the list of columns that
  exist and the rows (restricted to the columns that the caller selects).
\<close>

definition json_normalize :: "asteroid list \<Rightarrow> string list \<times> frame_row list" where
  "json_normalize data =
     (if data = [] then ([], [])
      else
        let records = concat (map close_approach_data data);
            lengths = map (\<lambda>a. length (close_approach_data a)) data;
            meta_vals = repeat_by data lengths
        in (frame_columns records, map (\<lambda>(e, a). mk_frame_row e a) (zip records meta_vals)))"

subsection \<open>The column selection of lines 51--61\<close>

definition selected_columns :: "string list" where
  "selected_columns =
     [''id'', ''name'', ''is_potentially_hazardous_asteroid'', ''estimated_diameter'',
      ''cpd.relative_velocity.kilometers_per_second'', ''cpd.miss_distance.kilometers'',
      ''cpd.close_approach_date'']"

text \<open>\<open>df[[...]]\<close> raises \<open>KeyError\<close> when a selected column does not exist.\<close>

definition select_columns :: "string list \<times> frame_row list \<Rightarrow> error + frame_row list" where
  "select_columns df =
     (let missing = filter (\<lambda>c. c \<notin> set (fst df)) selected_columns
      in if missing = [] then Inr (snd df) else Inl (KeyError missing))"

subsection \<open>The loop of lines 44--62\<close>

fun concat_days :: "asteroid list list \<Rightarrow> frame_row list \<Rightarrow> error + frame_row list" where
  "concat_days [] df_ovr = Inr df_ovr"
| "concat_days (data # days) df_ovr =
     (case select_columns (json_normalize data) of
        Inl e \<Rightarrow> Inl e
      | Inr df \<Rightarrow> concat_days days (df_ovr @ df))"

subsection \<open>The two \<open>apply\<close> calls of lines 64--69\<close>

text \<open>\<open>x["kilometers"][field]\<close>: each subscript raises \<open>KeyError\<close> on a missing key.\<close>

definition kilometers_field :: "string \<Rightarrow> pyfloat dict dict \<Rightarrow> error + pyfloat" where
  "kilometers_field field x =
     (case map_of x ''kilometers'' of
        None \<Rightarrow> Inl (KeyError [''kilometers''])
      | Some km \<Rightarrow>
          (case map_of km field of
             None \<Rightarrow> Inl (KeyError [field])
           | Some v \<Rightarrow> Inr v))"

text \<open>\<open>Series.apply\<close>: the function on each value in row order, up to the first exception.\<close>

fun apply_series :: "('a \<Rightarrow> error + 'b) \<Rightarrow> 'a list \<Rightarrow> error + 'b list" where
  "apply_series f [] = Inr []"
| "apply_series f (x # xs) =
     (case f x of
        Inl e \<Rightarrow> Inl e
      | Inr y \<Rightarrow> (case apply_series f xs of Inl e \<Rightarrow> Inl e | Inr ys \<Rightarrow> Inr (y # ys)))"

definition mk_row :: "frame_row \<Rightarrow> pyfloat \<times> pyfloat \<Rightarrow> row" where
  "mk_row r mm =
     \<lparr>row_id = col_id r, name = col_name r,
      is_potentially_hazardous_asteroid = col_hazardous r,
      estimated_diameter_min_km = fst mm, estimated_diameter_max_km = snd mm,
      relative_velocity_km_sec = col_relative_velocity r,
      miss_distance_km = col_miss_distance r,
      searching_date = col_close_approach_date r\<rparr>"

subsection \<open>\<open>transform_data\<close>\<close>

text \<open>
  The frame that is returned.  The write of \<open>report_NASA.csv\<close> on line 91 stores the
  same rows and is not part of the value.
\<close>

definition transform_data :: "raw_feed \<Rightarrow> error + row list" where
  "transform_data report =
     (case concat_days (map snd report) [] of
        Inl e \<Rightarrow> Inl e
      | Inr df_ovr \<Rightarrow>
          (case apply_series (kilometers_field ''estimated_diameter_min'')
                  (map col_estimated_diameter df_ovr) of
             Inl e \<Rightarrow> Inl e
           | Inr mins \<Rightarrow>
               (case apply_series (kilometers_field ''estimated_diameter_max'')
                       (map col_estimated_diameter df_ovr) of
                  Inl e \<Rightarrow> Inl e
                | Inr maxs \<Rightarrow> Inr (map (\<lambda>(r, mm). mk_row r mm) (zip df_ovr (zip mins maxs))))))"

section \<open>The summarizer: \<open>make_dict\<close>\<close>

subsection \<open>Float operations\<close>

text \<open>
  Division of float columns follows IEEE and raises nothing: a nonzero value over
  zero is an infinity, zero over zero is \<open>NaN\<close>.
\<close>

fun fdiv :: "pyfloat \<Rightarrow> pyfloat \<Rightarrow> pyfloat" where
  "fdiv (Fin x) (Fin y) =
     (if y = 0 then (if x = 0 then NaN else if 0 < x then PInf else NInf) else Fin (x / y))"
| "fdiv (Fin x) PInf = Fin 0"
| "fdiv (Fin x) NInf = Fin 0"
| "fdiv PInf (Fin y) = (if y < 0 then NInf else PInf)"
| "fdiv NInf (Fin y) = (if y < 0 then PInf else NInf)"
| "fdiv _ _ = NaN"

text \<open>\<open>a <= b\<close> on floats; false when either side is \<open>NaN\<close>.\<close>

fun fle :: "pyfloat \<Rightarrow> pyfloat \<Rightarrow> bool" where
  "fle NaN _ = False"
| "fle _ NaN = False"
| "fle NInf _ = True"
| "fle _ PInf = True"
| "fle (Fin x) (Fin y) = (x \<le> y)"
| "fle _ _ = False"

text \<open>\<open>a == b\<close> on floats; \<open>NaN\<close> equals nothing.\<close>

definition feq :: "pyfloat \<Rightarrow> pyfloat \<Rightarrow> bool" where
  "feq a b = (a \<noteq> NaN \<and> a = b)"

text \<open>
  \<open>Series.max()\<close> and \<open>Series.min()\<close> skip \<open>NaN\<close> and return \<open>NaN\<close> when nothing
  is left.
\<close>

definition series_max :: "pyfloat list \<Rightarrow> pyfloat" where
  "series_max xs =
     (case filter (\<lambda>x. x \<noteq> NaN) xs of
        [] \<Rightarrow> NaN
      | y # ys \<Rightarrow> fold (\<lambda>x m. if fle m x then x else m) ys y)"

definition series_min :: "pyfloat list \<Rightarrow> pyfloat" where
  "series_min xs =
     (case filter (\<lambda>x. x \<noteq> NaN) xs of
        [] \<Rightarrow> NaN
      | y # ys \<Rightarrow> fold (\<lambda>x m. if fle x m then x else m) ys y)"

text \<open>Rounding of a real to the nearest integer, a tie to the even one.\<close>

definition round_half_even :: "real \<Rightarrow> int" where
  "round_half_even x =
     (let f = \<lfloor>x\<rfloor>; d = x - of_int f
      in if d < 1 / 2 then f else if 1 / 2 < d then f + 1 else if even f then f else f + 1)"

text \<open>
  \<open>round(x)\<close> of a float: \<open>ValueError\<close> for \<open>NaN\<close>, \<open>OverflowError\<close> for an
  infinity.
\<close>

fun py_round :: "pyfloat \<Rightarrow> error + int" where
  "py_round (Fin x) = Inr (round_half_even x)"
| "py_round NaN = Inl ValueError"
| "py_round _ = Inl OverflowError"

subsection \<open>\<open>make_dict\<close>\<close>

text \<open>
  The columns hold floats, so \<open>astype(float)\<close> leaves them as they are.
  \<open>iloc[0]\<close> raises \<open>IndexError\<close> when no row is selected.
\<close>

definition make_dict :: "row list \<Rightarrow> error + summary" where
  "make_dict df =
     (let hazard_count = length (filter (\<lambda>r. is_potentially_hazardous_asteroid r = True) df);
          m = series_max (map estimated_diameter_max_km df)
      in case filter (\<lambda>r. feq (estimated_diameter_max_km r) m) df of
           [] \<Rightarrow> Inl IndexError
         | r0 # _ \<Rightarrow>
             (let max_name = name r0;
                  min_hours =
                    series_min
                      (map (\<lambda>r. fdiv (fdiv (miss_distance_km r) (relative_velocity_km_sec r))
                                   (Fin 360)) df)
              in case py_round min_hours of
                   Inl e \<Rightarrow> Inl e
                 | Inr h \<Rightarrow>
                     Inr \<lparr>potentially_hazardous_count = hazard_count,
                          name_with_max_estimated_diam = max_name,
                          min_collision_hours = h\<rparr>))"

section \<open>The feed client and the main block\<close>

text \<open>
  What \<open>requests.get\<close> returned: the status code and the body.  The body is either
  no JSON document, or an object, of which only the member \<open>near_earth_objects\<close>
  is read (\<open>None\<close> when the object has no such member).
\<close>

datatype body = NotJSON | Object "raw_feed option"

record response =
  status_code :: int
  json :: body

text \<open>
  \<open>get_response\<close>, from the response on: what it prints, and the exception it
  raises or the value it returns.  The returned value \<open>None\<close> is Python's \<open>None\<close>,
  which the function returns by falling off its end in the \<open>else\<close> branch.
\<close>

definition get_response :: "response \<Rightarrow> string list \<times> (error + raw_feed option)" where
  "get_response resp =
     (if status_code resp = 200 then
        (case json resp of
           NotJSON \<Rightarrow> ([], Inl JSONDecodeError)
         | Object None \<Rightarrow> ([], Inl (KeyError [''near_earth_objects'']))
         | Object (Some neo) \<Rightarrow> ([], Inr (Some neo)))
      else ([''Error!''], Inr None))"

text \<open>
  The main block up to \<open>print(d)\<close>: the lines printed by \<open>get_response\<close>, and the
  exception that ends the run or the dictionary that is printed.  \<open>transform_data\<close>
  starts with \<open>report.keys()\<close>, which raises \<open>AttributeError\<close> on \<open>None\<close>.  The
  database steps follow only after \<open>print(d)\<close>.
\<close>

definition main :: "response \<Rightarrow> string list \<times> (error + summary)" where
  "main resp =
     (case get_response resp of
        (out, Inl e) \<Rightarrow> (out, Inl e)
      | (out, Inr None) \<Rightarrow> (out, Inl AttributeError)
      | (out, Inr (Some report)) \<Rightarrow>
          (case transform_data report of
             Inl e \<Rightarrow> (out, Inl e)
           | Inr df \<Rightarrow>
               (case make_dict df of
                  Inl e \<Rightarrow> (out, Inl e)
                | Inr d \<Rightarrow> (out, Inr d))))"

section \<open>The lookup query of \<open>get_information\<close>\<close>

definition quote :: char where
  "quote = CHR 0x27"

definition select_prefix :: string where
  "select_prefix = ''SELECT name FROM asteroids WHERE searching_date = ''"

text \<open>
  The text that line 152 passes to \<open>cur.execute\<close>: the f-string with the arguments
  \<open>searching_date\<close> and \<open>miss_distance_km\<close> of \<open>get_information\<close>.
\<close>

definition get_information_query :: "string \<Rightarrow> string \<Rightarrow> string" where
  "get_information_query date_arg distance_arg =
     select_prefix @ [quote] @ date_arg @ [quote]
     @ '' AND miss_distance_km = '' @ distance_arg"

text \<open>
  How SQL reads a string constant, from the character after its opening quote: a
  doubled quote stands for one quote character, and the first quote that is not
  doubled ends the constant.  The result is the value of the constant and the text
  after it, or \<open>None\<close> when the constant is not terminated.
\<close>

fun sql_string_body :: "string \<Rightarrow> (string \<times> string) option" where
  "sql_string_body [] = None"
| "sql_string_body [c] = (if c = quote then Some ([], []) else None)"
| "sql_string_body (c # d # cs) =
     (if c = quote then
        (if d = quote then map_option (\<lambda>(v, rest). (quote # v, rest)) (sql_string_body cs)
         else Some ([], d # cs))
      else map_option (\<lambda>(v, rest). (c # v, rest)) (sql_string_body (d # cs)))"

text \<open>
  The value that the database compares \<open>searching_date\<close> with: the string constant
  that starts right after \<open>searching_date = \<close> in the query text.
\<close>

definition compared_date :: "string \<Rightarrow> string option" where
  "compared_date q = map_option fst (sql_string_body (drop (Suc (length select_prefix)) q))"

section \<open>The statements of the specification\<close>

text \<open>
  The flattener as the specification words it: for each date, each asteroid and each
  of its events, one row that combines the event's velocity, distance and date with
  the asteroid's id, name, hazard flag and the two diameter extremes of the
  kilometer unit.
\<close>

definition kilometers_of :: "pyfloat dict dict \<Rightarrow> string \<Rightarrow> pyfloat" where
  "kilometers_of x field =
     (case map_of x ''kilometers'' of None \<Rightarrow> NaN | Some km \<Rightarrow> cell km field)"

definition flat_row :: "asteroid \<Rightarrow> close_approach \<Rightarrow> row" where
  "flat_row a e =
     \<lparr>row_id = neo_id a, name = neo_name a,
      is_potentially_hazardous_asteroid = neo_hazardous a,
      estimated_diameter_min_km = kilometers_of (estimated_diameter a) ''estimated_diameter_min'',
      estimated_diameter_max_km = kilometers_of (estimated_diameter a) ''estimated_diameter_max'',
      relative_velocity_km_sec = cell (relative_velocity e) ''kilometers_per_second'',
      miss_distance_km = cell (miss_distance e) ''kilometers'',
      searching_date = close_approach_date e\<rparr>"

definition flatten :: "raw_feed \<Rightarrow> row list" where
  "flatten raw =
     concat (map (\<lambda>(day, data). concat (map (\<lambda>a. map (flat_row a) (close_approach_data a)) data))
       raw)"

text \<open>The sum over all asteroids of all dates of their event counts.\<close>

definition event_count :: "raw_feed \<Rightarrow> nat" where
  "event_count raw = (\<Sum>(day, data)\<leftarrow>raw. \<Sum>a\<leftarrow>data. length (close_approach_data a))"

text \<open>
  A day whose events carry, each in at least one event, a velocity in kilometers per
  second, a miss distance in kilometers and a date.
\<close>

definition day_has_columns :: "asteroid list \<Rightarrow> bool" where
  "day_has_columns data =
     ((\<exists>a \<in> set data. \<exists>e \<in> set (close_approach_data a).
          map_of (relative_velocity e) ''kilometers_per_second'' \<noteq> None)
      \<and> (\<exists>a \<in> set data. \<exists>e \<in> set (close_approach_data a).
          map_of (miss_distance e) ''kilometers'' \<noteq> None)
      \<and> (\<exists>a \<in> set data. \<exists>e \<in> set (close_approach_data a). close_approach_date e \<noteq> None))"

text \<open>An asteroid whose diameter structure has the kilometer unit with both extremes.\<close>

definition has_kilometers :: "asteroid \<Rightarrow> bool" where
  "has_kilometers a =
     (case map_of (estimated_diameter a) ''kilometers'' of
        None \<Rightarrow> False
      | Some km \<Rightarrow>
          map_of km ''estimated_diameter_min'' \<noteq> None
          \<and> map_of km ''estimated_diameter_max'' \<noteq> None)"

text \<open>The rows of one day's frame, asteroid by asteroid and event by event.\<close>

definition day_rows :: "asteroid list \<Rightarrow> frame_row list" where
  "day_rows data = concat (map (\<lambda>a. map (\<lambda>e. mk_frame_row e a) (close_approach_data a)) data)"

text \<open>The finite floats, and the real number in a finite float.\<close>

fun is_fin :: "pyfloat \<Rightarrow> bool" where
  "is_fin (Fin x) = True"
| "is_fin _ = False"

fun the_fin :: "pyfloat \<Rightarrow> real" where
  "the_fin (Fin x) = x"
| "the_fin _ = 0"

text \<open>
  \<open>min_collision_hours\<close> as the specification words it: the minimum over all rows of
  \<open>(miss_distance_km / relative_velocity_km_sec) / 3600\<close>, rounded to the nearest
  integer.
\<close>

definition spec_min_collision_hours :: "row list \<Rightarrow> int" where
  "spec_min_collision_hours rows =
     round_half_even
       (Min (set (map (\<lambda>r. the_fin (miss_distance_km r) / the_fin (relative_velocity_km_sec r) / 3600)
          rows)))"

section \<open>Example inputs\<close>

definition event_1 :: close_approach where
  "event_1 =
     \<lparr>close_approach_date = Some ''2023-01-01'',
      relative_velocity = [(''kilometers_per_second'', Fin 10), (''kilometers_per_hour'', Fin 36000)],
      miss_distance = [(''lunar'', Fin (26 / 10000)), (''kilometers'', Fin 1000)]\<rparr>"

definition event_2 :: close_approach where
  "event_2 =
     \<lparr>close_approach_date = Some ''2023-01-02'',
      relative_velocity = [(''kilometers_per_second'', Fin 5)],
      miss_distance = [(''kilometers'', Fin 2000)]\<rparr>"

definition kilometers_1 :: "pyfloat dict dict" where
  "kilometers_1 =
     [(''kilometers'', [(''estimated_diameter_min'', Fin (2 / 10)), (''estimated_diameter_max'', Fin (5 / 10))]),
      (''meters'', [(''estimated_diameter_min'', Fin 200), (''estimated_diameter_max'', Fin 500)])]"

definition meters_only :: "pyfloat dict dict" where
  "meters_only =
     [(''meters'', [(''estimated_diameter_min'', Fin 200), (''estimated_diameter_max'', Fin 500)])]"

definition apophis :: asteroid where
  "apophis =
     \<lparr>neo_id = ''2099942'', neo_name = ''Apophis'', neo_hazardous = True,
      estimated_diameter = kilometers_1, close_approach_data = [event_1, event_2]\<rparr>"

definition bennu :: asteroid where
  "bennu =
     \<lparr>neo_id = ''2101955'', neo_name = ''Bennu'', neo_hazardous = False,
      estimated_diameter = kilometers_1, close_approach_data = [event_2]\<rparr>"

text \<open>An asteroid without the kilometer unit, with one event and with none.\<close>

definition no_kilometers :: asteroid where
  "no_kilometers =
     \<lparr>neo_id = ''3'', neo_name = ''C'', neo_hazardous = False,
      estimated_diameter = meters_only, close_approach_data = [event_1]\<rparr>"

definition no_kilometers_no_event :: asteroid where
  "no_kilometers_no_event =
     \<lparr>neo_id = ''4'', neo_name = ''D'', neo_hazardous = False,
      estimated_diameter = meters_only, close_approach_data = []\<rparr>"

definition example_feed :: raw_feed where
  "example_feed = [(''2023-01-01'', [apophis]), (''2023-01-02'', [bennu, no_kilometers_no_event])]"

text \<open>A row that is one hour away: 3600 km at 1 km/s.\<close>

definition one_hour_row :: row where
  "one_hour_row =
     \<lparr>row_id = ''5'', name = ''E'', is_potentially_hazardous_asteroid = False,
      estimated_diameter_min_km = Fin (1 / 10), estimated_diameter_max_km = Fin (2 / 10),
      relative_velocity_km_sec = Fin 1, miss_distance_km = Fin 3600,
      searching_date = Some ''2023-01-03''\<rparr>"

text \<open>A row with the relative velocity zero.\<close>

definition zero_velocity_row :: row where
  "zero_velocity_row =
     \<lparr>row_id = ''6'', name = ''F'', is_potentially_hazardous_asteroid = True,
      estimated_diameter_min_km = Fin (1 / 10), estimated_diameter_max_km = Fin (3 / 10),
      relative_velocity_km_sec = Fin 0, miss_distance_km = Fin 1000,
      searching_date = Some ''2023-01-03''\<rparr>"

text \<open>A date argument with quote characters: \<open>2023-01-23' OR '1' = '1\<close>.\<close>

definition injected_date :: string where
  "injected_date =
     ''2023-01-23'' @ [quote] @ '' OR '' @ [quote] @ ''1'' @ [quote] @ '' = '' @ [quote] @ ''1''"

section \<open>Properties of the flattener\<close>

subsection \<open>The per-day frame\<close>

lemma zip_repeat_by:
  "zip (concat (map close_approach_data data))
       (repeat_by data (map (\<lambda>a. length (close_approach_data a)) data))
   = concat (map (\<lambda>a. map (\<lambda>e. (e, a)) (close_approach_data a)) data)"
proof (induction data)
  case Nil
  then show ?case by simp
next
  case (Cons a data)
  have "zip (close_approach_data a) (replicate (length (close_approach_data a)) a)
        = map (\<lambda>e. (e, a)) (close_approach_data a)"
    by (simp add: zip_replicate2)
  with Cons show ?case by simp
qed

lemma json_normalize_rows: "snd (json_normalize data) = day_rows data"
proof (cases "data = []")
  case True
  then show ?thesis by (simp add: json_normalize_def day_rows_def)
next
  case False
  then show ?thesis
    by (simp add: json_normalize_def day_rows_def Let_def zip_repeat_by map_concat comp_def)
qed

lemma velocity_column:
  "''cpd.relative_velocity.kilometers_per_second'' \<in> set (frame_columns records)
   \<longleftrightarrow> (\<exists>e \<in> set records. map_of (relative_velocity e) ''kilometers_per_second'' \<noteq> None)"
  by (auto simp: frame_columns_def meta_columns_def flat_keys_def map_of_eq_None_iff image_iff
      split_def split: option.splits)

lemma distance_column:
  "''cpd.miss_distance.kilometers'' \<in> set (frame_columns records)
   \<longleftrightarrow> (\<exists>e \<in> set records. map_of (miss_distance e) ''kilometers'' \<noteq> None)"
  by (auto simp: frame_columns_def meta_columns_def flat_keys_def map_of_eq_None_iff image_iff
      split_def split: option.splits)

lemma date_key:
  "''close_approach_date'' \<in> set (flat_keys e) \<longleftrightarrow> close_approach_date e \<noteq> None"
  by (cases "close_approach_date e") (auto simp: flat_keys_def split_def)

lemma date_column:
  "''cpd.close_approach_date'' \<in> set (frame_columns records)
   \<longleftrightarrow> (\<exists>e \<in> set records. close_approach_date e \<noteq> None)"
proof -
  have "''cpd.close_approach_date'' \<in> set (frame_columns records)
        \<longleftrightarrow> (\<exists>e \<in> set records. ''close_approach_date'' \<in> set (flat_keys e))"
    by (auto simp: frame_columns_def meta_columns_def)
  then show ?thesis by (simp add: date_key)
qed

lemma meta_columns_present:
  "''id'' \<in> set (frame_columns records)"
  "''name'' \<in> set (frame_columns records)"
  "''is_potentially_hazardous_asteroid'' \<in> set (frame_columns records)"
  "''estimated_diameter'' \<in> set (frame_columns records)"
  by (simp_all add: frame_columns_def meta_columns_def)

lemma select_columns_ok:
  assumes "day_has_columns data"
  shows "select_columns (json_normalize data) = Inr (day_rows data)"
proof -
  from assms have ne: "data \<noteq> []" by (auto simp: day_has_columns_def)
  let ?records = "concat (map close_approach_data data)"
  have cols: "fst (json_normalize data) = frame_columns ?records"
    using ne by (simp add: json_normalize_def Let_def)
  have "\<forall>c \<in> set selected_columns. c \<in> set (frame_columns ?records)"
    using assms
    by (simp add: selected_columns_def meta_columns_present velocity_column distance_column
        date_column day_has_columns_def)
  then have "filter (\<lambda>c. c \<notin> set (fst (json_normalize data))) selected_columns = []"
    by (simp add: cols filter_empty_conv)
  then show ?thesis
    by (simp add: select_columns_def Let_def json_normalize_rows)
qed

lemma select_columns_error: "select_columns df = Inl e \<Longrightarrow> \<exists>ks. e = KeyError ks"
  by (auto simp: select_columns_def Let_def split: if_splits)

lemma select_columns_rows: "select_columns (json_normalize data) = Inr df \<Longrightarrow> df = day_rows data"
  by (auto simp: select_columns_def Let_def json_normalize_rows split: if_splits)

subsection \<open>The loop over the days\<close>

lemma concat_days_ok:
  "\<forall>data \<in> set days. day_has_columns data \<Longrightarrow>
   concat_days days df_ovr = Inr (df_ovr @ concat (map day_rows days))"
  by (induction days arbitrary: df_ovr) (simp_all add: select_columns_ok)

lemma concat_days_rows:
  "concat_days days df_ovr = Inr df \<Longrightarrow> df = df_ovr @ concat (map day_rows days)"
proof (induction days arbitrary: df_ovr)
  case Nil
  then show ?case by simp
next
  case (Cons data days)
  from Cons.prems obtain d where d: "select_columns (json_normalize data) = Inr d"
    and r: "concat_days days (df_ovr @ d) = Inr df"
    by (auto split: sum.splits)
  from d have "d = day_rows data" by (rule select_columns_rows)
  with Cons.IH [OF r] show ?case by simp
qed

lemma concat_days_error: "concat_days days df_ovr = Inl e \<Longrightarrow> \<exists>ks. e = KeyError ks"
proof (induction days arbitrary: df_ovr)
  case Nil
  then show ?case by simp
next
  case (Cons data days)
  then show ?case
    by (auto split: sum.splits dest: select_columns_error)
qed

subsection \<open>The diameter columns\<close>

lemma apply_series_ok:
  "\<forall>x \<in> set xs. f x = Inr (g x) \<Longrightarrow> apply_series f xs = Inr (map g xs)"
  by (induction xs) simp_all

lemma apply_series_all:
  "apply_series f xs = Inr ys \<Longrightarrow> \<forall>x \<in> set xs. \<exists>y. f x = Inr y"
  by (induction xs arbitrary: ys) (auto split: sum.splits)

lemma apply_series_error: "apply_series f xs = Inl e \<Longrightarrow> \<exists>x \<in> set xs. f x = Inl e"
  by (induction xs) (auto split: sum.splits)

lemma kilometers_field_error: "kilometers_field field x = Inl e \<Longrightarrow> \<exists>ks. e = KeyError ks"
  by (auto simp: kilometers_field_def split: option.splits)

lemma kilometers_field_missing:
  "map_of x ''kilometers'' = None \<Longrightarrow> kilometers_field field x = Inl (KeyError [''kilometers''])"
  by (simp add: kilometers_field_def)

lemma kilometers_field_ok:
  assumes "has_kilometers a"
    and "field = ''estimated_diameter_min'' \<or> field = ''estimated_diameter_max''"
  shows "kilometers_field field (estimated_diameter a)
         = Inr (kilometers_of (estimated_diameter a) field)"
  using assms
  by (auto simp: has_kilometers_def kilometers_field_def kilometers_of_def cell_def
      split: option.splits)

lemma day_rows_diameter:
  assumes "r \<in> set (day_rows data)"
  shows "\<exists>a \<in> set data. close_approach_data a \<noteq> [] \<and> col_estimated_diameter r = estimated_diameter a"
proof -
  from assms obtain a e where a: "a \<in> set data" and e: "e \<in> set (close_approach_data a)"
    and r: "r = mk_frame_row e a"
    by (auto simp: day_rows_def)
  from e have "close_approach_data a \<noteq> []" by auto
  moreover from r have "col_estimated_diameter r = estimated_diameter a"
    by (simp add: mk_frame_row_def)
  ultimately show ?thesis using a by blast
qed

lemma day_rows_member:
  assumes "a \<in> set data" and "close_approach_data a \<noteq> []"
  shows "\<exists>r \<in> set (day_rows data). col_estimated_diameter r = estimated_diameter a"
proof -
  from assms(2) obtain e where e: "e \<in> set (close_approach_data a)"
    by (cases "close_approach_data a") auto
  with assms(1) have "mk_frame_row e a \<in> set (day_rows data)"
    by (auto simp: day_rows_def)
  moreover have "col_estimated_diameter (mk_frame_row e a) = estimated_diameter a"
    by (simp add: mk_frame_row_def)
  ultimately show ?thesis by blast
qed

lemma zip_columns:
  "map h (zip xs (zip (map f xs) (map g xs))) = map (\<lambda>x. h (x, f x, g x)) xs"
  by (induction xs) simp_all

lemma day_rows_flat:
  "map (\<lambda>r. mk_row r (kilometers_of (col_estimated_diameter r) ''estimated_diameter_min'',
                      kilometers_of (col_estimated_diameter r) ''estimated_diameter_max''))
     (day_rows data)
   = concat (map (\<lambda>a. map (flat_row a) (close_approach_data a)) data)"
  by (simp add: day_rows_def map_concat comp_def mk_row_def mk_frame_row_def flat_row_def [abs_def])

lemma all_rows_flat:
  "map (\<lambda>r. mk_row r (kilometers_of (col_estimated_diameter r) ''estimated_diameter_min'',
                      kilometers_of (col_estimated_diameter r) ''estimated_diameter_max''))
     (concat (map day_rows (map snd report)))
   = flatten report"
  by (induction report) (auto simp: flatten_def day_rows_flat)

lemma flatten_length: "length (flatten raw) = event_count raw"
  by (induction raw) (auto simp: flatten_def event_count_def length_concat comp_def)

lemma frame_to_rows:
  "map (\<lambda>(r, mm). mk_row r mm) (zip df (zip (map f (map c df)) (map g (map c df))))
   = map (\<lambda>r. mk_row r (f (c r), g (c r))) df"
  by (induction df) simp_all

lemma transform_data_rows:
  assumes "\<forall>data \<in> set (map snd report). day_has_columns data"
    and "\<forall>data \<in> set (map snd report). \<forall>a \<in> set data.
           close_approach_data a \<noteq> [] \<longrightarrow> has_kilometers a"
  shows "transform_data report = Inr (flatten report)"
proof -
  define df where "df = concat (map day_rows (map snd report))"
  define ds where "ds = map col_estimated_diameter df"
  have loop: "concat_days (map snd report) [] = Inr df"
    using concat_days_ok [OF assms(1), of "[]"] by (simp add: df_def)
  have km: "\<exists>a. has_kilometers a \<and> x = estimated_diameter a" if "x \<in> set ds" for x
  proof -
    from that obtain r data where "data \<in> set (map snd report)" and "r \<in> set (day_rows data)"
      and "x = col_estimated_diameter r"
      unfolding ds_def df_def by auto
    with day_rows_diameter [of r data] assms(2) show ?thesis by metis
  qed
  have field: "\<forall>x \<in> set ds. kilometers_field f x = Inr (kilometers_of x f)"
    if "f = ''estimated_diameter_min'' \<or> f = ''estimated_diameter_max''" for f
  proof
    fix x assume "x \<in> set ds"
    then obtain a where "has_kilometers a" and "x = estimated_diameter a"
      using km by blast
    then show "kilometers_field f x = Inr (kilometers_of x f)"
      using kilometers_field_ok [OF _ that] by simp
  qed
  have mins: "apply_series (kilometers_field ''estimated_diameter_min'') ds
              = Inr (map (\<lambda>x. kilometers_of x ''estimated_diameter_min'') ds)"
    by (rule apply_series_ok) (rule field, simp)
  have maxs: "apply_series (kilometers_field ''estimated_diameter_max'') ds
              = Inr (map (\<lambda>x. kilometers_of x ''estimated_diameter_max'') ds)"
    by (rule apply_series_ok) (rule field, simp)
  have "transform_data report
        = Inr (map (\<lambda>(r, mm). mk_row r mm)
            (zip df (zip (map (\<lambda>x. kilometers_of x ''estimated_diameter_min'') ds)
                         (map (\<lambda>x. kilometers_of x ''estimated_diameter_max'') ds))))"
    unfolding transform_data_def loop sum.case ds_def [symmetric] mins maxs ..
  also have "\<dots> = Inr (map (\<lambda>r. mk_row r
        (kilometers_of (col_estimated_diameter r) ''estimated_diameter_min'',
         kilometers_of (col_estimated_diameter r) ''estimated_diameter_max'')) df)"
    unfolding ds_def frame_to_rows ..
  also have "\<dots> = Inr (flatten report)"
    unfolding df_def all_rows_flat ..
  finally show ?thesis .
qed

text \<open>
  C1 (amended).  For every feed in which each date has an event with a velocity in
  kilometers per second, one with a miss distance in kilometers and one with a date,
  and in which every asteroid that has an event has both kilometer diameters,
  \<open>transform_data\<close> succeeds and returns exactly one row per pair of an asteroid and
  one of its events, in feed order, each row repeating the asteroid's id, name,
  hazard flag and diameter extremes; the number of rows is the sum of the event
  counts.
\<close>

theorem transform_data_one_row_per_event:
  assumes "\<forall>(day, data) \<in> set report. day_has_columns data"
    and "\<forall>(day, data) \<in> set report. \<forall>a \<in> set data.
           close_approach_data a \<noteq> [] \<longrightarrow> has_kilometers a"
  shows "transform_data report = Inr (flatten report)
         \<and> length (flatten report) = event_count report"
proof -
  from assms(1) have "\<forall>data \<in> set (map snd report). day_has_columns data" by auto
  moreover from assms(2) have "\<forall>data \<in> set (map snd report). \<forall>a \<in> set data.
      close_approach_data a \<noteq> [] \<longrightarrow> has_kilometers a"
    by auto
  ultimately have "transform_data report = Inr (flatten report)"
    by (rule transform_data_rows)
  then show ?thesis by (simp add: flatten_length)
qed

lemma example_feed_columns: "\<forall>(day, data) \<in> set example_feed. day_has_columns data"
  by (simp add: example_feed_def day_has_columns_def apophis_def bennu_def
      no_kilometers_no_event_def event_1_def event_2_def)

lemma example_feed_kilometers:
  "\<forall>(day, data) \<in> set example_feed. \<forall>a \<in> set data.
     close_approach_data a \<noteq> [] \<longrightarrow> has_kilometers a"
  by (simp add: example_feed_def has_kilometers_def apophis_def bennu_def
      no_kilometers_no_event_def kilometers_1_def)

theorem transform_data_one_row_per_event_witness:
  "transform_data example_feed = Inr (flatten example_feed)
   \<and> length (flatten example_feed) = event_count example_feed
   \<and> event_count example_feed = 3"
  using transform_data_one_row_per_event [OF example_feed_columns example_feed_kilometers]
  by (simp add: event_count_def example_feed_def apophis_def bennu_def no_kilometers_no_event_def)

theorem transform_data_row_count_counterexample:
  "transform_data [(''2023-01-01'', [no_kilometers])] = Inl (KeyError [''kilometers''])
   \<and> event_count [(''2023-01-01'', [no_kilometers])] = 1"
  by (simp add: transform_data_def json_normalize_def select_columns_def selected_columns_def
      frame_columns_def flat_keys_def meta_columns_def mk_frame_row_def kilometers_field_def
      event_count_def no_kilometers_def event_1_def meters_only_def)

text \<open>
  C5 (amended).  For every feed that contains an asteroid with at least one
  close-approach event whose diameter structure lacks the kilometer unit,
  \<open>transform_data\<close> fails with Python's \<open>KeyError\<close> and returns no rows; no default
  value is put in place of the missing diameters.
\<close>

theorem transform_data_missing_kilometers:
  assumes "(day, data) \<in> set report" and "a \<in> set data"
    and "close_approach_data a \<noteq> []"
    and "map_of (estimated_diameter a) ''kilometers'' = None"
  shows "\<exists>ks. transform_data report = Inl (KeyError ks)"
proof (cases "concat_days (map snd report) []")
  case (Inl e)
  then show ?thesis
    using concat_days_error [OF Inl] by (auto simp: transform_data_def)
next
  case (Inr df)
  let ?ds = "map col_estimated_diameter df"
  let ?f = "kilometers_field ''estimated_diameter_min''"
  from concat_days_rows [OF Inr] have df: "df = concat (map day_rows (map snd report))" by simp
  from assms(1) have "data \<in> set (map snd report)" by force
  with day_rows_member [OF assms(2,3)] df have x: "estimated_diameter a \<in> set ?ds"
    by force
  have "\<exists>e. apply_series ?f ?ds = Inl e"
  proof (cases "apply_series ?f ?ds")
    case (Inl e)
    then show ?thesis by blast
  next
    case (Inr mins)
    from apply_series_all [OF Inr] x obtain y where "?f (estimated_diameter a) = Inr y"
      by blast
    with kilometers_field_missing [OF assms(4)] show ?thesis by simp
  qed
  then obtain e where e: "apply_series ?f ?ds = Inl e" ..
  from apply_series_error [OF e] kilometers_field_error obtain ks where "e = KeyError ks"
    by blast
  with e Inr show ?thesis by (simp add: transform_data_def)
qed

theorem transform_data_missing_kilometers_witness:
  "\<exists>ks. transform_data [(''2023-01-01'', [apophis, no_kilometers])] = Inl (KeyError ks)"
proof -
  have "close_approach_data no_kilometers \<noteq> []"
    and "map_of (estimated_diameter no_kilometers) ''kilometers'' = None"
    by (simp_all add: no_kilometers_def meters_only_def)
  then show ?thesis
    using transform_data_missing_kilometers
      [of "''2023-01-01''" "[apophis, no_kilometers]" _ no_kilometers]
    by simp
qed

theorem transform_data_missing_kilometers_counterexample:
  "map_of (estimated_diameter no_kilometers_no_event) ''kilometers'' = None
   \<and> transform_data [(''2023-01-02'', [bennu, no_kilometers_no_event])]
     = Inr [flat_row bennu event_2]"
  by (simp add: transform_data_def json_normalize_def select_columns_def selected_columns_def
      frame_columns_def flat_keys_def meta_columns_def mk_frame_row_def kilometers_field_def
      mk_row_def flat_row_def kilometers_of_def cell_def
      bennu_def no_kilometers_no_event_def event_2_def meters_only_def kilometers_1_def)

text \<open>
  C7.  On the feed \<open>{"2023-01-01": []}\<close> the code raises \<open>KeyError\<close>: the frame of
  the empty day has no column, so the selection of lines 51--61 finds none of the
  seven.
\<close>

theorem transform_data_empty_day:
  "transform_data [(''2023-01-01'', [])]
   = Inl (KeyError [''id'', ''name'', ''is_potentially_hazardous_asteroid'', ''estimated_diameter'',
        ''cpd.relative_velocity.kilometers_per_second'', ''cpd.miss_distance.kilometers'',
        ''cpd.close_approach_date''])"
  by (simp add: transform_data_def json_normalize_def select_columns_def selected_columns_def)

lemma transform_data_any_empty_day:
  assumes "(day, []) \<in> set report"
  shows "\<exists>ks. transform_data report = Inl (KeyError ks)"
proof -
  have fail: "select_columns (json_normalize []) = Inl (KeyError selected_columns)"
    by (simp add: json_normalize_def select_columns_def selected_columns_def)
  have "\<And>df_ovr. [] \<in> set days \<Longrightarrow> \<exists>e. concat_days days df_ovr = Inl e" for days
  proof (induction days)
    case Nil
    then show ?case by simp
  next
    case (Cons data days)
    then show ?case by (cases "data = []") (auto simp: fail split: sum.splits)
  qed
  moreover from assms have "[] \<in> set (map snd report)" by force
  ultimately obtain e where e: "concat_days (map snd report) [] = Inl e" by blast
  with concat_days_error [OF e] show ?thesis by (auto simp: transform_data_def)
qed

section \<open>Properties of the summarizer\<close>

subsection \<open>The order of floats\<close>

lemma fle_refl: "x \<noteq> NaN \<Longrightarrow> fle x x"
  by (cases x) simp_all

lemma fle_total: "x \<noteq> NaN \<Longrightarrow> y \<noteq> NaN \<Longrightarrow> fle x y \<or> fle y x"
  by (cases x; cases y) auto

lemma fle_trans: "fle x y \<Longrightarrow> fle y z \<Longrightarrow> fle x z"
  by (cases x; cases y; cases z) auto

lemma fold_min_least:
  assumes "m \<noteq> NaN" and "\<forall>y \<in> set ys. y \<noteq> NaN"
  shows "fold (\<lambda>x m. if fle x m then x else m) ys m \<in> set (m # ys)
         \<and> (\<forall>y \<in> set (m # ys). fle (fold (\<lambda>x m. if fle x m then x else m) ys m) y)"
  using assms
proof (induction ys arbitrary: m)
  case Nil
  then show ?case by (simp add: fle_refl)
next
  case (Cons x ys)
  let ?f = "\<lambda>x m. if fle x m then x else m"
  let ?m = "?f x m"
  from Cons.prems have x: "x \<noteq> NaN" and ys: "\<forall>y \<in> set ys. y \<noteq> NaN" by auto
  have m': "?m \<noteq> NaN" using Cons.prems(1) x by simp
  have low: "fle ?m m \<and> fle ?m x"
    using fle_total [OF x Cons.prems(1)] fle_refl [OF x] fle_refl [OF Cons.prems(1)] by auto
  from Cons.IH [OF m' ys]
  have mem: "fold ?f ys ?m \<in> set (?m # ys)"
    and least: "\<forall>y \<in> set (?m # ys). fle (fold ?f ys ?m) y"
    by blast+
  from least have "fle (fold ?f ys ?m) ?m" by simp
  with low have "fle (fold ?f ys ?m) m" and "fle (fold ?f ys ?m) x"
    by (blast intro: fle_trans)+
  with least have "\<forall>y \<in> set (m # x # ys). fle (fold ?f ys ?m) y" by simp
  moreover from mem have "fold ?f ys ?m \<in> set (m # x # ys)" by auto
  ultimately show ?case by simp
qed

lemma fold_max_member:
  "fold (\<lambda>x m. if fle m x then x else m) ys m \<in> set (m # ys)"
proof (induction ys arbitrary: m)
  case Nil
  then show ?case by simp
next
  case (Cons x ys)
  from Cons.IH [of "if fle m x then x else m"] show ?case by auto
qed

lemma series_min_least:
  assumes "\<exists>x \<in> set xs. x \<noteq> NaN"
  shows "series_min xs \<in> set xs \<and> series_min xs \<noteq> NaN
         \<and> (\<forall>y \<in> set xs. y \<noteq> NaN \<longrightarrow> fle (series_min xs) y)"
proof -
  from assms have "filter (\<lambda>x. x \<noteq> NaN) xs \<noteq> []" by (simp add: filter_empty_conv)
  then obtain y ys where f: "filter (\<lambda>x. x \<noteq> NaN) xs = y # ys"
    by (cases "filter (\<lambda>x. x \<noteq> NaN) xs") auto
  then have s: "set (y # ys) = {x \<in> set xs. x \<noteq> NaN}"
    by (metis set_filter)
  then have "y \<noteq> NaN" and "\<forall>z \<in> set ys. z \<noteq> NaN" by auto
  from fold_min_least [OF this] s f show ?thesis
    by (auto simp: series_min_def)
qed

lemma series_max_member:
  assumes "\<exists>x \<in> set xs. x \<noteq> NaN"
  shows "series_max xs \<in> set xs \<and> series_max xs \<noteq> NaN"
proof -
  from assms have "filter (\<lambda>x. x \<noteq> NaN) xs \<noteq> []" by (simp add: filter_empty_conv)
  then obtain y ys where f: "filter (\<lambda>x. x \<noteq> NaN) xs = y # ys"
    by (cases "filter (\<lambda>x. x \<noteq> NaN) xs") auto
  then have s: "set (y # ys) = {x \<in> set xs. x \<noteq> NaN}"
    by (metis set_filter)
  from fold_max_member [of ys y] s f show ?thesis
    by (auto simp: series_max_def)
qed

subsection \<open>The shape of the result\<close>

lemma make_dict_result:
  assumes "\<exists>r \<in> set df. estimated_diameter_max_km r \<noteq> NaN"
  shows "\<exists>n. make_dict df =
           (case py_round (series_min
                   (map (\<lambda>r. fdiv (fdiv (miss_distance_km r) (relative_velocity_km_sec r)) (Fin 360)) df)) of
              Inl e \<Rightarrow> Inl e
            | Inr h \<Rightarrow>
                Inr \<lparr>potentially_hazardous_count =
                       length (filter is_potentially_hazardous_asteroid df),
                     name_with_max_estimated_diam = n, min_collision_hours = h\<rparr>)"
proof -
  let ?m = "series_max (map estimated_diameter_max_km df)"
  from assms have "\<exists>x \<in> set (map estimated_diameter_max_km df). x \<noteq> NaN" by auto
  from series_max_member [OF this] obtain r where "r \<in> set df"
    and "feq (estimated_diameter_max_km r) ?m"
    by (auto simp: feq_def)
  then have "filter (\<lambda>r. feq (estimated_diameter_max_km r) ?m) df \<noteq> []"
    by (auto simp: filter_empty_conv)
  then obtain r0 rs where "filter (\<lambda>r. feq (estimated_diameter_max_km r) ?m) df = r0 # rs"
    by (cases "filter (\<lambda>r. feq (estimated_diameter_max_km r) ?m) df") auto
  then show ?thesis
    by (auto simp: make_dict_def Let_def split: sum.splits)
qed

lemma make_dict_no_division_error: "make_dict df \<noteq> Inl ZeroDivisionError"
proof -
  have "py_round x \<noteq> Inl ZeroDivisionError" for x by (cases x) simp_all
  then show ?thesis
    by (auto simp: make_dict_def Let_def split: list.splits sum.splits)
qed

lemma finite_not_NaN:
  assumes "r0 \<in> set df" and "\<forall>r \<in> set df. is_fin (estimated_diameter_max_km r)"
  shows "\<exists>r \<in> set df. estimated_diameter_max_km r \<noteq> NaN"
proof -
  from assms have "is_fin (estimated_diameter_max_km r0)" by blast
  then have "estimated_diameter_max_km r0 \<noteq> NaN" by auto
  with assms(1) show ?thesis by blast
qed

lemma quotient_infinite:
  assumes "is_fin (miss_distance_km r)" and "the_fin (miss_distance_km r) \<noteq> 0"
    and "relative_velocity_km_sec r = Fin 0"
  shows "fdiv (fdiv (miss_distance_km r) (relative_velocity_km_sec r)) (Fin 360) \<in> {PInf, NInf}"
  using assms by (cases "miss_distance_km r") simp_all

text \<open>
  C8 (amended).  For every non-empty row-set in which every row has the velocity
  zero, a finite nonzero miss distance and a finite maximal diameter, \<open>make_dict\<close>
  fails and returns no numeric result; the exception is \<open>OverflowError\<close>, raised by
  \<open>round\<close> on the infinite minimum, and not a division error.  Each quotient is an
  infinity whatever the sign of the zero, so the outcome does not depend on it.
\<close>

theorem make_dict_zero_velocity:
  assumes "df \<noteq> []"
    and "\<forall>r \<in> set df. is_fin (estimated_diameter_max_km r)"
    and "\<forall>r \<in> set df. is_fin (miss_distance_km r) \<and> the_fin (miss_distance_km r) \<noteq> 0
           \<and> relative_velocity_km_sec r = Fin 0"
  shows "make_dict df = Inl OverflowError"
proof -
  let ?q = "\<lambda>r. fdiv (fdiv (miss_distance_km r) (relative_velocity_km_sec r)) (Fin 360)"
  from assms(1) obtain r0 where r0: "r0 \<in> set df" by (cases df) auto
  have q: "?q r \<in> {PInf, NInf}" if "r \<in> set df" for r
    using that assms(3) quotient_infinite [of r] by blast
  from make_dict_result [OF finite_not_NaN [OF r0 assms(2)]] obtain n where n: "make_dict df =
      (case py_round (series_min (map ?q df)) of
         Inl e \<Rightarrow> Inl e
       | Inr h \<Rightarrow>
           Inr \<lparr>potentially_hazardous_count = length (filter is_potentially_hazardous_asteroid df),
                name_with_max_estimated_diam = n, min_collision_hours = h\<rparr>)"
    by blast
  from q [OF r0] have "?q r0 \<noteq> NaN" by auto
  with r0 have "\<exists>x \<in> set (map ?q df). x \<noteq> NaN" by force
  from series_min_least [OF this] have "series_min (map ?q df) \<in> set (map ?q df)" by blast
  then obtain r1 where r1: "r1 \<in> set df" and s: "series_min (map ?q df) = ?q r1" by auto
  from q [OF r1] have "series_min (map ?q df) \<in> {PInf, NInf}" unfolding s .
  then have "py_round (series_min (map ?q df)) = Inl OverflowError" by auto
  with n show ?thesis by simp
qed

theorem make_dict_zero_velocity_witness:
  "make_dict [zero_velocity_row] = Inl OverflowError"
proof -
  have ne: "[zero_velocity_row] \<noteq> []" by simp
  have d: "\<forall>r \<in> set [zero_velocity_row]. is_fin (estimated_diameter_max_km r)"
    by (simp add: zero_velocity_row_def)
  have z: "\<forall>r \<in> set [zero_velocity_row].
      is_fin (miss_distance_km r) \<and> the_fin (miss_distance_km r) \<noteq> 0
      \<and> relative_velocity_km_sec r = Fin 0"
    by (simp add: zero_velocity_row_def)
  from make_dict_zero_velocity [OF ne d z] show ?thesis .
qed

theorem make_dict_zero_velocity_counterexample:
  "relative_velocity_km_sec zero_velocity_row = Fin 0
   \<and> make_dict [zero_velocity_row, one_hour_row] =
       Inr \<lparr>potentially_hazardous_count = 1, name_with_max_estimated_diam = ''F'',
            min_collision_hours = 10\<rparr>"
  by (simp add: make_dict_def series_max_def series_min_def feq_def round_half_even_def
      zero_velocity_row_def one_hour_row_def)

text \<open>
  C2.  On the single row with miss distance 3600 km and velocity 1 km/s the code
  returns \<open>min_collision_hours = 10\<close>, where the minimum of
  \<open>(miss_distance_km / relative_velocity_km_sec) / 3600\<close> rounds to 1: line 99
  divides by 360.
\<close>

theorem make_dict_divides_by_360:
  "make_dict [one_hour_row] =
     Inr \<lparr>potentially_hazardous_count = 0, name_with_max_estimated_diam = ''E'',
          min_collision_hours = 10\<rparr>
   \<and> spec_min_collision_hours [one_hour_row] = 1"
  by (simp add: make_dict_def series_max_def series_min_def feq_def round_half_even_def
      spec_min_collision_hours_def one_hour_row_def)

text \<open>
  C3 (amended).  For the empty row-set \<open>make_dict\<close> fails with Python's \<open>IndexError\<close>,
  raised by \<open>iloc[0]\<close> on the empty selection; it returns no result, neither zero nor
  \<open>NaN\<close>.
\<close>

theorem make_dict_empty:
  "make_dict [] = Inl IndexError"
  by (simp add: make_dict_def series_max_def)

theorem make_dict_empty_counterexample:
  "make_dict [] \<noteq> Inl (AppError ''EmptyInputError'')"
  by (simp add: make_dict_def series_max_def)

text \<open>
  C4.  For Row A (Apophis, hazardous, maximal diameter 0.5 km, miss distance 1000 km,
  velocity 10 km/s, 2023-01-01) and Row B (Bennu, not hazardous, 0.3 km, 2000 km,
  5 km/s, 2023-01-02), whatever their ids and minimal diameters, \<open>make_dict\<close> returns
  the hazardous count 1, the name Apophis and \<open>min_collision_hours\<close> 0.
\<close>

theorem make_dict_apophis_bennu:
  "make_dict
     [\<lparr>row_id = id_a, name = ''Apophis'', is_potentially_hazardous_asteroid = True,
       estimated_diameter_min_km = min_a, estimated_diameter_max_km = Fin (5 / 10),
       relative_velocity_km_sec = Fin 10, miss_distance_km = Fin 1000,
       searching_date = Some ''2023-01-01''\<rparr>,
      \<lparr>row_id = id_b, name = ''Bennu'', is_potentially_hazardous_asteroid = False,
       estimated_diameter_min_km = min_b, estimated_diameter_max_km = Fin (3 / 10),
       relative_velocity_km_sec = Fin 5, miss_distance_km = Fin 2000,
       searching_date = Some ''2023-01-02''\<rparr>]
   = Inr \<lparr>potentially_hazardous_count = 1, name_with_max_estimated_diam = ''Apophis'',
          min_collision_hours = 0\<rparr>"
  by (simp add: make_dict_def series_max_def series_min_def feq_def round_half_even_def)

section \<open>Properties of the lookup query\<close>

lemma sql_string_body_consumed:
  "sql_string_body t = Some (v, rest) \<Longrightarrow>
   \<exists>p. t = p @ quote # rest
       \<and> length p = length v + count_list v quote
       \<and> count_list p quote = 2 * count_list v quote"
proof (induction t arbitrary: v rule: sql_string_body.induct)
  case 1
  then show ?case by simp
next
  case (2 c)
  then show ?case by (auto split: if_splits)
next
  case (3 c d cs)
  show ?case
  proof (cases "c = quote")
    case True
    show ?thesis
    proof (cases "d = quote")
      case dq: True
      with True "3.prems" obtain v' where b: "sql_string_body cs = Some (v', rest)"
        and v: "v = quote # v'"
        by auto
      from "3.IH"(1) [OF True dq b] obtain p where "cs = p @ quote # rest"
        and "length p = length v' + count_list v' quote"
        and "count_list p quote = 2 * count_list v' quote"
        by blast
      with True dq v have "c # d # cs = (quote # quote # p) @ quote # rest
          \<and> length (quote # quote # p) = length v + count_list v quote
          \<and> count_list (quote # quote # p) quote = 2 * count_list v quote"
        by simp
      then show ?thesis by blast
    next
      case False
      with True "3.prems" have "v = []" and "rest = d # cs" by auto
      with True show ?thesis by simp
    qed
  next
    case False
    with "3.prems" obtain v' where b: "sql_string_body (d # cs) = Some (v', rest)"
      and v: "v = c # v'"
      by auto
    from "3.IH"(2) [OF False b] obtain p where "d # cs = p @ quote # rest"
      and "length p = length v' + count_list v' quote"
      and "count_list p quote = 2 * count_list v' quote"
      by blast
    with False v have "c # d # cs = (c # p) @ quote # rest
        \<and> length (c # p) = length v + count_list v quote
        \<and> count_list (c # p) quote = 2 * count_list v quote"
      by simp
    then show ?thesis by blast
  qed
qed

lemma sql_string_body_plain:
  assumes "quote \<notin> set d" and "s \<noteq> []" and "hd s \<noteq> quote"
  shows "sql_string_body (d @ quote # s) = Some (d, s)"
  using assms(1)
proof (induction d)
  case Nil
  from assms(2,3) show ?case by (cases s) auto
next
  case (Cons c d)
  then have "sql_string_body (d @ quote # s) = Some (d, s)" and "c \<noteq> quote" by auto
  then show ?case by (cases d) auto
qed

lemma query_after_prefix:
  "drop (Suc (length select_prefix)) (get_information_query d m)
   = d @ quote # '' AND miss_distance_km = '' @ m"
  by (simp add: get_information_query_def)

lemma count_quotes_positive: "quote \<in> set d \<Longrightarrow> 0 < count_list d quote"
  by (induction d) auto

lemma quoted_date_not_compared:
  assumes "quote \<in> set d" and "hd s \<noteq> quote" and "s \<noteq> []"
  shows "sql_string_body (d @ quote # s) \<noteq> Some (d, rest)"
proof
  assume "sql_string_body (d @ quote # s) = Some (d, rest)"
  from sql_string_body_consumed [OF this] obtain p where t: "d @ quote # s = p @ quote # rest"
    and len: "length p = length d + count_list d quote"
    and cnt: "count_list p quote = 2 * count_list d quote"
    by blast
  from count_quotes_positive [OF assms(1)] have q: "0 < count_list d quote" .
  from t obtain us where "(d @ us = p \<and> quote # s = us @ quote # rest)
      \<or> (d = p @ us \<and> us @ quote # s = quote # rest)"
    by (auto simp: append_eq_append_conv2)
  with len q have p: "p = d @ us" and u: "quote # s = us @ quote # rest" by auto
  from p len q have "us \<noteq> []" by auto
  with u obtain s' where us: "us = quote # s'" and s: "s = s' @ quote # rest"
    by (cases us) auto
  from p us len have l: "Suc (length s') = count_list d quote" by simp
  from p us cnt have "Suc (count_list s' quote) = count_list d quote" by simp
  with l have all: "count_list s' quote = length s'" by simp
  show False
  proof (cases s')
    case Nil
    with s assms(2) show False by simp
  next
    case (Cons c s'')
    with s assms(2) have "c \<noteq> quote" by simp
    with Cons all have "count_list s'' quote = Suc (length s'')" by simp
    with count_le_length [of s'' quote] show False by simp
  qed
qed

lemma plain_date_compared:
  assumes "quote \<notin> set d"
  shows "compared_date (get_information_query d m) = Some d"
proof -
  have "sql_string_body (d @ quote # '' AND miss_distance_km = '' @ m)
        = Some (d, '' AND miss_distance_km = '' @ m)"
    by (rule sql_string_body_plain [OF assms]) (simp_all add: quote_def)
  then show ?thesis by (simp add: compared_date_def query_after_prefix)
qed

text \<open>
  C10.  \<open>get_information\<close> puts both arguments into the query text as they are; for
  every \<open>searching_date\<close> that contains a quote character, the string constant that
  the query compares the column with is not that argument.
\<close>

theorem get_information_query_not_exact:
  assumes "quote \<in> set d"
  shows "get_information_query d m
           = ''SELECT name FROM asteroids WHERE searching_date = '' @ [quote] @ d @ [quote]
             @ '' AND miss_distance_km = '' @ m
         \<and> compared_date (get_information_query d m) \<noteq> Some d"
proof -
  have "sql_string_body (d @ quote # '' AND miss_distance_km = '' @ m) \<noteq> Some (d, rest)"
    for rest
    by (rule quoted_date_not_compared [OF assms]) (simp_all add: quote_def)
  then have "compared_date (get_information_query d m) \<noteq> Some d"
    by (auto simp: compared_date_def query_after_prefix)
  then show ?thesis by (simp add: get_information_query_def select_prefix_def)
qed

theorem get_information_query_not_exact_witness:
  "quote \<in> set injected_date
   \<and> compared_date (get_information_query injected_date ''1'') = Some ''2023-01-23''
   \<and> compared_date (get_information_query injected_date ''1'') \<noteq> Some injected_date"
proof -
  have q: "quote \<in> set injected_date" by (simp add: injected_date_def)
  have "compared_date (get_information_query injected_date ''1'') = Some ''2023-01-23''"
    by (simp add: compared_date_def query_after_prefix injected_date_def quote_def)
  with q get_information_query_not_exact [OF q, of "''1''"] show ?thesis by simp
qed

section \<open>Properties of the feed client\<close>

text \<open>
  C6 (amended).  For every response with a status other than 200, \<open>get_response\<close>
  prints \<open>Error!\<close> and returns \<open>None\<close> without raising; the main block then stops in
  \<open>transform_data\<close> with \<open>AttributeError\<close>, before any row is produced.
\<close>

theorem get_response_not_200:
  assumes "status_code resp \<noteq> 200"
  shows "get_response resp = ([''Error!''], Inr None)
         \<and> main resp = ([''Error!''], Inl AttributeError)"
  using assms by (simp add: get_response_def main_def)

theorem get_response_not_200_witness:
  "get_response \<lparr>status_code = 404, json = NotJSON\<rparr> = ([''Error!''], Inr None)
   \<and> main \<lparr>status_code = 404, json = NotJSON\<rparr> = ([''Error!''], Inl AttributeError)"
  using get_response_not_200 [of "\<lparr>status_code = 404, json = NotJSON\<rparr>"] by simp

theorem get_response_not_200_counterexample:
  "get_response \<lparr>status_code = 500, json = Object (Some example_feed)\<rparr> = ([''Error!''], Inr None)"
  by (simp add: get_response_def)

end
